theory Spec2Isabelle
  imports Main
begin

section \<open>The host: interop bridge and desktop container\<close>

text \<open>
  The FX trades grid and the LimitChecker window frame do nothing but call into their host:
  the FDC3 bridge (\<^verbatim>\<open>window.fdc3\<close>, \<^verbatim>\<open>broadcast\<close>) and the container's window
  object (\<^verbatim>\<open>fin.Window.getCurrentSync()\<close>). Every such call is recorded, in order, in
  the host's list of effects; what the host answers is a field of the host.
\<close>

record instrument_id =
  ticker :: string

text \<open>The context object \<^verbatim>\<open>{ type, id: { ticker } }\<close>.\<close>

record fdc3_context =
  ctx_type :: string
  ctx_id :: instrument_id

datatype win_method = Close | Minimize | GetState | Restore | Maximize

type_synonym window = string

datatype effect =
    Broadcast fdc3_context
  | WindowCall window win_method

text \<open>A settled promise: a value, or a rejection with its reason.\<close>

datatype 'a promise = Fulfilled 'a | Rejected string

record host =
  fdc3 :: bool \<comment> \<open>whether \<^verbatim>\<open>window.fdc3\<close> is present (truthy)\<close>
  currentWindow :: window \<comment> \<open>the window \<^verbatim>\<open>fin.Window.getCurrentSync()\<close> returns\<close>
  reportedState :: "window \<Rightarrow> string promise" \<comment> \<open>how the container settles \<^verbatim>\<open>getState()\<close>\<close>
  effects :: "effect list"

definition perform :: "effect \<Rightarrow> host \<Rightarrow> host" where
  "perform e h = h\<lparr>effects := effects h @ [e]\<rparr>"

section \<open>FxTrades\<close>

text \<open>
  Modelled from the spec: the declaration of \<^verbatim>\<open>FxTrade\<close> (imported from
  \<^verbatim>\<open>@/services/trades\<close>) is not among the sources. The spec's trade record has a
  symbol, a quantity, a price, a status such as "Rejected" and an identifier; this component
  reads \<^verbatim>\<open>symbol\<close> and \<^verbatim>\<open>status\<close> only, so the record declares these two and
  every function below takes any extension of it.
\<close>

record FxTrade =
  symbol :: string
  status :: string

definition tryBroadcastContext :: "'a FxTrade_scheme \<Rightarrow> host \<Rightarrow> host" where
  "tryBroadcastContext trade h =
     (let ctx = \<lparr>ctx_type = ''fdc3.instrument'', ctx_id = \<lparr>ticker = symbol trade\<rparr>\<rparr>
      in if fdc3 h then perform (Broadcast ctx) h else h)"

definition isRejected :: "'a FxTrade_scheme \<Rightarrow> bool" where
  "isRejected row = (status row = ''Rejected'')"

text \<open>The calls a run added to the host's effects.\<close>

definition added :: "host \<Rightarrow> host \<Rightarrow> effect list" where
  "added h h' = drop (length (effects h)) (effects h')"

fun is_broadcast :: "effect \<Rightarrow> bool" where
  "is_broadcast (Broadcast c) = True"
| "is_broadcast (WindowCall w m) = False"

section \<open>LimitCheckerWindowFrame\<close>

definition getCurrentSync :: "host \<Rightarrow> window" where
  "getCurrentSync h = currentWindow h"

text \<open>
  \<^verbatim>\<open>win.getState().then(f)\<close>: the query is made; \<open>f\<close> runs on the reported state when
  the promise is fulfilled, and is skipped when it is rejected.
\<close>

definition getState_then :: "window \<Rightarrow> (string \<Rightarrow> host \<Rightarrow> host) \<Rightarrow> host \<Rightarrow> host" where
  "getState_then win f h =
     (let h1 = perform (WindowCall win GetState) h
      in case reportedState h win of
           Fulfilled state \<Rightarrow> f state h1
         | Rejected reason \<Rightarrow> h1)"

record headerControlHandlers =
  close :: "host \<Rightarrow> host"
  minimize :: "host \<Rightarrow> host"
  maximize :: "host \<Rightarrow> host"

text \<open>
  The component reads the current window once, when it renders (host \<open>h0\<close>); the three
  handlers close over it and run later, on the host of the click.
\<close>

definition LimitCheckerWindowFrame :: "host \<Rightarrow> headerControlHandlers" where
  "LimitCheckerWindowFrame h0 =
     (let win = getCurrentSync h0
      in \<lparr>close = perform (WindowCall win Close),
          minimize = perform (WindowCall win Minimize),
          maximize = getState_then win
            (\<lambda>state. if state = ''maximized''
               then perform (WindowCall win Restore)
               else perform (WindowCall win Maximize))\<rparr>)"

section \<open>JavaScript strings and values\<close>

text \<open>
  Strings are lists of characters. A value of type \<^verbatim>\<open>string | undefined\<close> (an
  environment variable, an array element read by index, an optional argument) is a
  \<open>string option\<close>, \<open>None\<close> being \<^verbatim>\<open>undefined\<close>.
\<close>

definition truthy :: "string option \<Rightarrow> bool" where
  "truthy v = (case v of None \<Rightarrow> False | Some s \<Rightarrow> s \<noteq> [])"

text \<open>\<^verbatim>\<open>v || d\<close> for an optional string \<open>v\<close>, and for a string.\<close>

definition or_else :: "string option \<Rightarrow> string \<Rightarrow> string" where
  "or_else v d = (case v of None \<Rightarrow> d | Some s \<Rightarrow> if s = [] then d else s)"

definition str_or :: "string \<Rightarrow> string \<Rightarrow> string" where
  "str_or s d = (if s = [] then d else s)"

fun startsWith :: "string \<Rightarrow> string \<Rightarrow> bool" where
  "startsWith s [] = True"
| "startsWith [] (p # ps) = False"
| "startsWith (x # xs) (p # ps) = (x = p \<and> startsWith xs ps)"

definition endsWith :: "string \<Rightarrow> string \<Rightarrow> bool" where
  "endsWith s p = startsWith (rev s) (rev p)"

text \<open>\<^verbatim>\<open>s.includes(p)\<close> on strings: \<open>p\<close> occurs in \<open>s\<close>.\<close>

fun includes_str :: "string \<Rightarrow> string \<Rightarrow> bool" where
  "includes_str [] p = (p = [])"
| "includes_str (x # xs) p = (startsWith (x # xs) p \<or> includes_str xs p)"

text \<open>\<^verbatim>\<open>xs[i]\<close>: \<^verbatim>\<open>undefined\<close> beyond the end.\<close>

definition at_index :: "'a list \<Rightarrow> nat \<Rightarrow> 'a option" where
  "at_index xs i = (if i < length xs then Some (xs ! i) else None)"

text \<open>
  \<^verbatim>\<open>s.split(sep)\<close>: the pieces of \<open>s\<close> between the occurrences of \<open>sep\<close>, found
  from the left; an empty separator splits into single characters.
\<close>

fun split_at :: "string \<Rightarrow> string \<Rightarrow> string \<Rightarrow> string list" where
  "split_at sep piece [] = [piece]"
| "split_at sep piece (x # xs) =
     (if startsWith (x # xs) sep
      then piece # split_at sep [] (drop (length sep - 1) xs)
      else split_at sep (piece @ [x]) xs)"

definition js_split :: "string \<Rightarrow> string \<Rightarrow> string list" where
  "js_split s sep = (if sep = [] then map (\<lambda>c. [c]) s else split_at sep [] s)"

text \<open>
  The replacement text of \<^verbatim>\<open>replace\<close> for one match of a pattern without capture
  groups: \<^verbatim>\<open>$$\<close> is a dollar sign, \<^verbatim>\<open>$&\<close> the matched text, \<^verbatim>\<open>$`\<close> the text
  before the match and \<^verbatim>\<open>$'\<close> the text after it; any other character stands for itself.
\<close>

fun getSubstitution :: "string \<Rightarrow> string \<Rightarrow> string \<Rightarrow> string \<Rightarrow> string" where
  "getSubstitution matched preceding following [] = []"
| "getSubstitution matched preceding following [c] = [c]"
| "getSubstitution matched preceding following (c # d # rest) =
     (if c = CHR ''$'' \<and> d = CHR ''$'' then CHR ''$'' # getSubstitution matched preceding following rest
      else if c = CHR ''$'' \<and> d = CHR ''&'' then matched @ getSubstitution matched preceding following rest
      else if c = CHR ''$'' \<and> d = CHR 0x60 then preceding @ getSubstitution matched preceding following rest
      else if c = CHR ''$'' \<and> d = CHR 0x27 then following @ getSubstitution matched preceding following rest
      else c # getSubstitution matched preceding following (d # rest))"

text \<open>
  \<^verbatim>\<open>s.replace(/pat/g, repl)\<close> for a pattern that is a literal, non-empty text, as all
  patterns of this program are: every occurrence, found from the left and not overlapping, is
  replaced. \<open>preceding\<close> is the part of the subject already passed.
\<close>

fun replace_from :: "string \<Rightarrow> string \<Rightarrow> string \<Rightarrow> string \<Rightarrow> string" where
  "replace_from pat repl preceding [] = []"
| "replace_from pat repl preceding (x # xs) =
     (if pat \<noteq> [] \<and> startsWith (x # xs) pat
      then getSubstitution pat preceding (drop (length pat - 1) xs) repl
           @ replace_from pat repl (preceding @ pat) (drop (length pat - 1) xs)
      else x # replace_from pat repl (preceding @ [x]) xs)"

definition replace_g :: "string \<Rightarrow> string \<Rightarrow> string \<Rightarrow> string" where
  "replace_g s pat repl = replace_from pat repl [] s"

text \<open>
  \<^verbatim>\<open>toUpperCase\<close> and \<^verbatim>\<open>toLowerCase\<close> on the letters a to z; every other
  character is left as it is (the case mappings of characters beyond ASCII are not modelled).
\<close>

definition lower_letters :: string where
  "lower_letters = ''abcdefghijklmnopqrstuvwxyz''"

definition upper_letters :: string where
  "upper_letters = ''ABCDEFGHIJKLMNOPQRSTUVWXYZ''"

definition upper_char :: "char \<Rightarrow> char" where
  "upper_char c = (case map_of (zip lower_letters upper_letters) c of Some u \<Rightarrow> u | None \<Rightarrow> c)"

definition lower_char :: "char \<Rightarrow> char" where
  "lower_char c = (case map_of (zip upper_letters lower_letters) c of Some l \<Rightarrow> l | None \<Rightarrow> c)"

definition toUpperCase :: "string \<Rightarrow> string" where
  "toUpperCase s = map upper_char s"

definition toLowerCase :: "string \<Rightarrow> string" where
  "toLowerCase s = map lower_char s"

section \<open>Node: paths and the file system\<close>

text \<open>
  \<^verbatim>\<open>path.parse\<close>, \<^verbatim>\<open>path.join\<close>, \<^verbatim>\<open>readdirSync\<close> and \<^verbatim>\<open>statSync\<close> belong
  to the platform, not to this repository: the plugins take them as a parameter. The two file
  system calls throw when the path cannot be read.
\<close>

record parsedPath =
  root :: string
  dir :: string
  base :: string
  ext :: string
  name :: string

datatype fs_error = ENOENT string | EACCES string

record node =
  path_parse :: "string \<Rightarrow> parsedPath"
  path_join :: "string list \<Rightarrow> string"
  readdirSync :: "string \<Rightarrow> fs_error + string list"
  statSync :: "string \<Rightarrow> fs_error + unit"

text \<open>
  The POSIX \<^verbatim>\<open>path.parse\<close>, for running the plugins on examples: trailing slashes are
  dropped, \<open>base\<close> is what follows the last slash, \<open>dir\<close> what precedes it, and the
  extension starts at the last dot of \<open>base\<close> unless that dot is its first character or
  \<open>base\<close> is \<^verbatim>\<open>..\<close>.
\<close>

definition is_slash :: "char \<Rightarrow> bool" where
  "is_slash c = (c = CHR ''/'')"

definition is_dot :: "char \<Rightarrow> bool" where
  "is_dot c = (c = CHR ''.'')"

definition posix_parse :: "string \<Rightarrow> parsedPath" where
  "posix_parse path =
     (let isAbsolute = startsWith path ''/'';
          t = rev (dropWhile is_slash (rev (if isAbsolute then tl path else path)));
          hasSlash = (CHR ''/'' \<in> set t);
          b = rev (takeWhile (\<lambda>c. \<not> is_slash c) (rev t));
          stem = rev (drop 1 (dropWhile (\<lambda>c. \<not> is_dot c) (rev b)));
          noExt = (CHR ''.'' \<notin> set b \<or> stem = [] \<or> (b = ''..'' \<and> (hasSlash \<or> \<not> isAbsolute)))
      in \<lparr>root = (if isAbsolute then ''/'' else ''''),
          dir = (if hasSlash
                 then (if isAbsolute then ''/'' else '''')
                      @ rev (drop 1 (dropWhile (\<lambda>c. \<not> is_slash c) (rev t)))
                 else if isAbsolute then ''/'' else ''''),
          base = b,
          ext = (if noExt then '''' else CHR ''.'' # rev (takeWhile (\<lambda>c. \<not> is_dot c) (rev b))),
          name = (if noExt then b else stem)\<rparr>)"

text \<open>
  The POSIX \<^verbatim>\<open>path.join\<close>: the non-empty arguments joined by slashes and normalised
  (empty and \<^verbatim>\<open>.\<close> segments dropped, \<^verbatim>\<open>..\<close> cancelling the segment before it).
\<close>

fun normalize_segments :: "bool \<Rightarrow> string list \<Rightarrow> string list \<Rightarrow> string list" where
  "normalize_segments allowAboveRoot res [] = rev res"
| "normalize_segments allowAboveRoot res (s # ss) =
     (if s = [] \<or> s = ''.'' then normalize_segments allowAboveRoot res ss
      else if s = ''..'' then
        (case res of
           r # rs \<Rightarrow>
             if r \<noteq> ''..'' then normalize_segments allowAboveRoot rs ss
             else normalize_segments allowAboveRoot
                    (if allowAboveRoot then ''..'' # res else res) ss
         | [] \<Rightarrow> normalize_segments allowAboveRoot
                    (if allowAboveRoot then [''..''] else []) ss)
      else normalize_segments allowAboveRoot (s # res) ss)"

fun join_with :: "string \<Rightarrow> string list \<Rightarrow> string" where
  "join_with sep [] = []"
| "join_with sep [s] = s"
| "join_with sep (s # t # ss) = s @ sep @ join_with sep (t # ss)"

definition posix_normalize :: "string \<Rightarrow> string" where
  "posix_normalize path =
     (if path = [] then ''.''
      else
        let isAbsolute = startsWith path ''/'';
            trailingSeparator = endsWith path ''/'';
            p = join_with ''/'' (normalize_segments (\<not> isAbsolute) [] (js_split path ''/''))
        in if p = [] then (if isAbsolute then ''/'' else if trailingSeparator then ''./'' else ''.'')
           else (if isAbsolute then ''/'' else '''') @ p @ (if trailingSeparator then ''/'' else ''''))"

definition posix_join :: "string list \<Rightarrow> string" where
  "posix_join args =
     (let joined = join_with ''/'' (filter (\<lambda>a. a \<noteq> []) args)
      in if joined = [] then ''.'' else posix_normalize joined)"

section \<open>The bundler configuration\<close>

type_synonym environment = "string \<rightharpoonup> string"

text \<open>
  The module's state: \<^verbatim>\<open>process.env\<close>, and \<^verbatim>\<open>localPort\<close>, which the module computes
  once as \<^verbatim>\<open>Number(process.env.PORT) || 1917\<close>. Parsing and printing JavaScript numbers
  are not modelled: \<open>localPort\<close> is the text the number prints as.
\<close>

record globals =
  localPort :: string
  process_env :: environment

definition OPENFIN_RUNTIME :: string where
  "OPENFIN_RUNTIME = ''31.112.75.4''"

definition getBaseUrl :: "globals \<Rightarrow> bool \<Rightarrow> string" where
  "getBaseUrl g dev =
     (if dev then ''http://localhost:'' @ localPort g
      else str_or (or_else (process_env g ''DOMAIN'') '''' @ or_else (process_env g ''URL_PATH'') '''')
             '''')"

text \<open>
  What \<^verbatim>\<open>resolveId\<close> returns: \<^verbatim>\<open>null\<close>, a path, or the promise of
  \<^verbatim>\<open>this.resolve(path, importer)\<close>, which hands the path to the bundler. A thrown file system
  error is the left summand of the result.
\<close>

datatype resolved =
    Null
  | Path string
  | Resolve string "string option"

definition apiMockReplacerPlugin_resolveId ::
    "node \<Rightarrow> string \<Rightarrow> string option \<Rightarrow> fs_error + resolved" where
  "apiMockReplacerPlugin_resolveId nd source importer =
     (if \<not> endsWith source ''.ts'' then Inr Null
      else
        let file = path_parse nd source
        in case readdirSync nd (''.'' @ dir file) of
             Inl e \<Rightarrow> Inl e
           | Inr files \<Rightarrow>
               if name file @ ''.service-mock.ts'' \<notin> set files then Inr Null
               else Inr (Resolve (dir file @ ''/'' @ name file @ ''.service-mock.ts'') importer))"

text \<open>The loop over the extensions: the first candidate that \<^verbatim>\<open>statSync\<close> accepts.\<close>

fun first_candidate :: "node \<Rightarrow> string \<Rightarrow> string list \<Rightarrow> resolved" where
  "first_candidate nd candidatePath [] = Null"
| "first_candidate nd candidatePath (e # es) =
     (case statSync nd (candidatePath @ ''.'' @ e) of
        Inr ok \<Rightarrow> Path (candidatePath @ ''.'' @ e)
      | Inl err \<Rightarrow> first_candidate nd candidatePath es)"

text \<open>
  \<^verbatim>\<open>targetBuildPlugin(dev, target).resolveId(source, importer)\<close>. The message the build
  branch writes to the console is not modelled.
\<close>

definition targetBuildPlugin_resolveId ::
    "node \<Rightarrow> bool \<Rightarrow> string \<Rightarrow> string \<Rightarrow> string option \<Rightarrow> fs_error + resolved" where
  "targetBuildPlugin_resolveId nd dev target source importer =
     (if dev then
        (case at_index (js_split source ''.'') 1 of
           None \<Rightarrow> Inr Null
         | Some extension \<Rightarrow>
             if extension \<noteq> ''ts'' \<and> extension \<noteq> ''tsx'' then Inr Null
             else
               let file = path_parse nd source
               in case readdirSync nd (''.'' @ dir file) of
                    Inl e \<Rightarrow> Inl e
                  | Inr files \<Rightarrow>
                      if name file @ ''.'' @ target @ ''.'' @ extension \<notin> set files
                      then Inr Null
                      else Inr (Resolve
                        (dir file @ ''/'' @ name file @ ''.'' @ target @ ''.'' @ extension)
                        importer))
      else
        let rootPrefix = ''client/src/'';
            thisImporter = replace_g (or_else importer '''') [CHR 0x5C] ''/''
        in if \<not> truthy importer \<or> \<not> includes_str thisImporter rootPrefix \<or> source = ''./main''
           then Inr Null
           else
             let importedFile = path_parse nd source;
                 importerFile = path_parse nd thisImporter;
                 candidatePath = path_join nd
                   [if startsWith (dir importedFile) ''/src'' \<and> includes_str (dir importerFile) rootPrefix
                    then (case js_split (dir importerFile) rootPrefix of
                            p # ps \<Rightarrow> p | [] \<Rightarrow> []) @ ''/client''
                    else dir importerFile,
                    dir importedFile,
                    name importedFile @ ''.'' @ toLowerCase target]
             in Inr (first_candidate nd candidatePath [''ts'', ''tsx'']))"

definition indexSwitchPlugin_resolveId ::
    "node \<Rightarrow> string \<Rightarrow> string \<Rightarrow> string option \<Rightarrow> fs_error + resolved" where
  "indexSwitchPlugin_resolveId nd target source importer =
     (if \<not> startsWith source ''./main'' \<or> \<not> truthy importer then Inr Null
      else
        let importedFile = path_parse nd source;
            importerFile = path_parse nd (or_else importer '''');
            candidate = path_join nd
              [dir importerFile, dir importedFile,
               name importedFile @ ''.'' @ toLowerCase target @ ''.ts'']
        in case statSync nd candidate of
             Inr ok \<Rightarrow> Inr (Path candidate)
           | Inl err \<Rightarrow> Inr Null)"

text \<open>One entry of the static-copy plugin's \<^verbatim>\<open>targets\<close>.\<close>

record copyTarget =
  src :: string
  dest :: string
  rename :: "string option"
  transform :: "(string \<Rightarrow> string) option"

text \<open>The \<^verbatim>\<open>transform\<close> of \<^verbatim>\<open>copyPlugin(isDev, buildTarget, env)\<close>.\<close>

definition copy_transform :: "globals \<Rightarrow> bool \<Rightarrow> string \<Rightarrow> string \<Rightarrow> string" where
  "copy_transform g isDev env contents =
     replace_g
       (replace_g
          (replace_g
             (replace_g
                (replace_g contents ''<BASE_URL>'' (getBaseUrl g (isDev \<or> env = ''local'')))
                ''web.prod.'' ''www.'')
             ''<ENV_NAME>'' env)
          ''<ENV_SUFFIX>'' (if env = ''prod'' then '''' else '' '' @ toUpperCase env))
       ''<OPENFIN_RUNTIME>'' OPENFIN_RUNTIME"

text \<open>The second step of the transform, on its own.\<close>

definition www :: "string \<Rightarrow> string" where
  "www s = replace_g s ''web.prod.'' ''www.''"


text \<open>
  The plugins of the configuration. A plugin made by one of this file's functions is the
  constructor of that function applied to what its hooks close over; the hooks themselves are
  the functions above and \<open>resolveId\<close> below. The plugins of the libraries are constants.
\<close>

datatype plugin =
    TargetBuildPlugin bool string
  | IndexSwitchPlugin string
  | ApiMockReplacerPlugin
  | React
  | SplitVendorChunkPlugin
  | CustomPreloadPlugin string
  | InjectManifest string string
  | ViteStaticCopy bool "copyTarget list"
  | CreateHtmlPlugin string string
  | Unfonts

definition targetBuildPlugin :: "bool \<Rightarrow> string \<Rightarrow> plugin" where
  "targetBuildPlugin dev target = TargetBuildPlugin dev target"

definition indexSwitchPlugin :: "string \<Rightarrow> plugin" where
  "indexSwitchPlugin target = IndexSwitchPlugin target"

definition apiMockReplacerPlugin :: plugin where
  "apiMockReplacerPlugin = ApiMockReplacerPlugin"

fun resolveId :: "node \<Rightarrow> plugin \<Rightarrow> string \<Rightarrow> string option \<Rightarrow> fs_error + resolved" where
  "resolveId nd (TargetBuildPlugin dev target) source importer =
     targetBuildPlugin_resolveId nd dev target source importer"
| "resolveId nd (IndexSwitchPlugin target) source importer =
     indexSwitchPlugin_resolveId nd target source importer"
| "resolveId nd ApiMockReplacerPlugin source importer =
     apiMockReplacerPlugin_resolveId nd source importer"
| "resolveId nd p source importer = Inr Null"


text \<open>\<^verbatim>\<open>customPreloadPlugin()\<close>, by the \<^verbatim>\<open>prefix\<close> it passes on.\<close>

definition customPreloadPlugin :: "globals \<Rightarrow> plugin" where
  "customPreloadPlugin g = CustomPreloadPlugin (str_or (getBaseUrl g False) '''')"

definition copyPlugin :: "globals \<Rightarrow> bool \<Rightarrow> string \<Rightarrow> string \<Rightarrow> plugin" where
  "copyPlugin g isDev buildTarget env =
     ViteStaticCopy True
       (if buildTarget = ''openfin''
        then [\<lparr>src = ''public-openfin/*.json'', dest = ''config'', rename = None,
                transform = Some (copy_transform g isDev env)\<rparr>,
              \<lparr>src = ''public-openfin/rt-fx.json'', dest = ''config'', rename = Some ''app.json'',
                transform = Some (copy_transform g isDev env)\<rparr>,
              \<lparr>src = ''public-openfin/plugin/*'', dest = ''plugin'', rename = None,
                transform = None\<rparr>]
        else [\<lparr>src = ''public-pwa/manifest.json'', dest = '''', rename = None,
                transform = Some (copy_transform g isDev env)\<rparr>,
              \<lparr>src = ''public-pwa/splashscreens/*'', dest = ''splashscreens'', rename = None,
                transform = None\<rparr>])"

text \<open>
  \<^verbatim>\<open>injectScriptIntoHtml\<close>, by the two parts of the injected text that vary: the manifest
  line and the tag manager's identifier.
\<close>

definition injectScriptIntoHtml :: "globals \<Rightarrow> bool \<Rightarrow> string \<Rightarrow> string \<Rightarrow> plugin" where
  "injectScriptIntoHtml g isDev buildTarget env =
     CreateHtmlPlugin
       (if buildTarget = ''web''
        then ''<link rel=\"manifest\" href=\"'' @ getBaseUrl g isDev @ ''/manifest.json\" />''
        else ''<!-- no manifest.json for OpenFin -->'')
       (if env = ''prod'' then ''G-Z3PC9MRCH9'' else ''G-Y28QSEPEC8'')"

text \<open>
  \<^verbatim>\<open>injectWebServiceWorkerPlugin(mode)\<close>, by its mode and the prefix it gives to
  \<^verbatim>\<open>assets\<close>.
\<close>

definition injectWebServiceWorkerPlugin :: "globals \<Rightarrow> string \<Rightarrow> plugin" where
  "injectWebServiceWorkerPlugin g mode =
     InjectManifest mode (getBaseUrl g (mode = ''development'') @ ''/assets'')"

definition fontFacePreload :: plugin where
  "fontFacePreload = Unfonts"

record proxyOptions =
  target :: string
  changeOrigin :: bool
  ws :: bool

text \<open>
  The configuration \<^verbatim>\<open>setConfig\<close> returns: \<^verbatim>\<open>base\<close>, \<^verbatim>\<open>build.sourcemap\<close>,
  \<^verbatim>\<open>preview.port\<close>, \<^verbatim>\<open>server.port\<close>, \<^verbatim>\<open>server.proxy\<close> (an object keyed by path,
  or \<^verbatim>\<open>undefined\<close>), \<^verbatim>\<open>resolve.alias\<close> and \<^verbatim>\<open>plugins\<close>. The constant
  \<^verbatim>\<open>test\<close> section is left out.
\<close>

record config =
  base_url :: string
  build_sourcemap :: bool
  preview_port :: string
  server_port :: string
  server_proxy :: "(string \<times> proxyOptions) list option"
  resolve_alias :: "(string \<times> string) list"
  plugins :: "plugin list"

text \<open>
  The locals of \<^verbatim>\<open>setConfig\<close>, in the order of the source. \<open>loaded\<close> is what
  \<^verbatim>\<open>loadEnv(mode, process.cwd())\<close> returns; the assignment to \<^verbatim>\<open>process.env\<close> merges it
  over the variables of the process.
\<close>

definition merged :: "globals \<Rightarrow> environment \<Rightarrow> globals" where
  "merged g loaded = g\<lparr>process_env := process_env g ++ loaded\<rparr>"

definition env_name :: "globals \<Rightarrow> string" where
  "env_name g = or_else (process_env g ''ENVIRONMENT'') ''local''"

definition buildTarget :: "globals \<Rightarrow> string" where
  "buildTarget g = or_else (process_env g ''TARGET'') ''web''"

definition devPlugins :: "globals \<Rightarrow> string \<Rightarrow> plugin list" where
  "devPlugins g mode =
     (let env = env_name g;
          buildTarget = buildTarget g;
          isDev = (mode = ''development'')
      in [targetBuildPlugin isDev buildTarget, indexSwitchPlugin buildTarget]
         @ (if truthy (process_env g ''VITE_MOCKS'') then [apiMockReplacerPlugin] else [])
         @ [React]
         @ (if \<not> isDev then [SplitVendorChunkPlugin, customPreloadPlugin g] else [])
         @ (if buildTarget = ''web'' then [injectWebServiceWorkerPlugin g mode] else [])
         @ [copyPlugin g isDev buildTarget env, injectScriptIntoHtml g isDev buildTarget env])"

definition proxy :: "globals \<Rightarrow> (string \<times> proxyOptions) list option" where
  "proxy g =
     (if truthy (process_env g ''VITE_MOCKS'') then None
      else Some [(''/ws'',
             \<lparr>target = or_else (process_env g ''VITE_HYDRA_URL'')
                          ''wss://trading-web-gateway-rt-dev.demo.hydra.weareadaptive.com'',
              changeOrigin = True,
              ws = True\<rparr>)])"

definition setConfig :: "globals \<Rightarrow> (string \<Rightarrow> environment) \<Rightarrow> string \<Rightarrow> config \<times> globals" where
  "setConfig g0 loadEnv mode =
     (let g = merged g0 (loadEnv mode);
          isDev = (mode = ''development'');
          viteBaseUrl = (if isDev then ''/'' else getBaseUrl g False);
          plugins = (if process_env g ''STORYBOOK'' = Some ''true'' then [] else devPlugins g mode)
                    @ [fontFacePreload]
      in (\<lparr>base_url = viteBaseUrl,
           build_sourcemap = True,
           preview_port = localPort g,
           server_port = localPort g,
           server_proxy = proxy g,
           resolve_alias = [(''@'', ''/src'')],
           plugins = plugins\<rparr>,
          g))"

section \<open>Templates and the substitution of their placeholders\<close>

text \<open>
  A template, as the copied JSON files are: plain text and the four placeholders.
  \<open>render\<close> is the text of the file; a piece of text is plain when it has no \<^verbatim>\<open><\<close>.
\<close>

datatype piece = Text string | Base_Url | Env_Name | Env_Suffix | Openfin_Runtime





section \<open>The credit end-to-end test\<close>






section \<open>Properties of the row-click handler and the rejected-row predicate\<close>

lemma added_perform: "added h (perform e h) = [e]"
  by (simp add: added_def perform_def)

lemma added_same: "added h h = []"
  by (simp add: added_def)

text \<open>
  C1. A row click broadcasts exactly when \<^verbatim>\<open>window.fdc3\<close> is present. When it is, the
  one call added is the broadcast of
  \<^verbatim>\<open>{ type: "fdc3.instrument", id: { ticker: trade.symbol } }\<close> for the clicked trade;
  when it is absent the handler adds no call at all and leaves the host as it was.
\<close>

theorem tryBroadcastContext_iff_fdc3:
  "((\<exists>e \<in> set (added h (tryBroadcastContext trade h)). is_broadcast e) \<longleftrightarrow> fdc3 h)
   \<and> (fdc3 h \<longrightarrow>
        tryBroadcastContext trade h =
          h\<lparr>effects := effects h @
             [Broadcast \<lparr>ctx_type = ''fdc3.instrument'', ctx_id = \<lparr>ticker = symbol trade\<rparr>\<rparr>]\<rparr>
        \<and> added h (tryBroadcastContext trade h) =
             [Broadcast \<lparr>ctx_type = ''fdc3.instrument'', ctx_id = \<lparr>ticker = symbol trade\<rparr>\<rparr>])
   \<and> (\<not> fdc3 h \<longrightarrow> tryBroadcastContext trade h = h)"
  by (simp add: tryBroadcastContext_def added_perform added_same) (simp add: perform_def)

theorem tryBroadcastContext_iff_fdc3_witness:
  "added \<lparr>fdc3 = True, currentWindow = ''main'', reportedState = (\<lambda>w. Fulfilled ''normal''),
          effects = []\<rparr>
     (tryBroadcastContext \<lparr>symbol = ''EURUSD'', status = ''Done''\<rparr>
        \<lparr>fdc3 = True, currentWindow = ''main'', reportedState = (\<lambda>w. Fulfilled ''normal''),
          effects = []\<rparr>)
   = [Broadcast \<lparr>ctx_type = ''fdc3.instrument'', ctx_id = \<lparr>ticker = ''EURUSD''\<rparr>\<rparr>]
   \<and> tryBroadcastContext \<lparr>symbol = ''EURUSD'', status = ''Done''\<rparr>
        \<lparr>fdc3 = False, currentWindow = ''main'', reportedState = (\<lambda>w. Fulfilled ''normal''),
          effects = []\<rparr>
     = \<lparr>fdc3 = False, currentWindow = ''main'', reportedState = (\<lambda>w. Fulfilled ''normal''),
          effects = []\<rparr>"
  using tryBroadcastContext_iff_fdc3
    [of "\<lparr>fdc3 = True, currentWindow = ''main'', reportedState = (\<lambda>w. Fulfilled ''normal''),
          effects = []\<rparr>" "\<lparr>symbol = ''EURUSD'', status = ''Done''\<rparr>"]
    tryBroadcastContext_iff_fdc3
    [of "\<lparr>fdc3 = False, currentWindow = ''main'', reportedState = (\<lambda>w. Fulfilled ''normal''),
          effects = []\<rparr>" "\<lparr>symbol = ''EURUSD'', status = ''Done''\<rparr>"]
  by (simp add: added_def)

text \<open>
  C2. \<^verbatim>\<open>isRejected\<close> holds of a row exactly when its status is the string "Rejected":
  a row with any other status is not rejected, and neither is its lower-case or upper-case
  spelling.
\<close>

theorem isRejected_iff:
  "(isRejected row \<longleftrightarrow> status row = ''Rejected'')
   \<and> (s \<noteq> ''Rejected'' \<longrightarrow> \<not> isRejected (row\<lparr>status := s\<rparr>))
   \<and> \<not> isRejected (row\<lparr>status := ''rejected''\<rparr>)
   \<and> \<not> isRejected (row\<lparr>status := ''REJECTED''\<rparr>)"
  by (simp add: isRejected_def)

theorem isRejected_iff_witness:
  "isRejected \<lparr>symbol = ''GBPJPY'', status = ''Rejected''\<rparr>
   \<and> \<not> isRejected \<lparr>symbol = ''GBPJPY'', status = ''Done''\<rparr>
   \<and> \<not> isRejected \<lparr>symbol = ''GBPJPY'', status = ''rejected''\<rparr>"
  using isRejected_iff [of "\<lparr>symbol = ''GBPJPY'', status = ''Rejected''\<rparr>" "''Done''"]
  by simp

section \<open>Properties of the window controls\<close>

lemma added_getState_then:
  "added h (getState_then win f h) =
     (case reportedState h win of
        Fulfilled state \<Rightarrow> added h (f state (perform (WindowCall win GetState) h))
      | Rejected reason \<Rightarrow> [WindowCall win GetState])"
  by (simp add: getState_then_def added_perform split: promise.split)

lemma added_perform2: "added h (perform e2 (perform e1 h)) = [e1, e2]"
  by (simp add: added_def perform_def)

lemma perform_fields:
  "fdc3 (perform e h) = fdc3 h" "currentWindow (perform e h) = currentWindow h"
  "reportedState (perform e h) = reportedState h" "effects (perform e h) = effects h @ [e]"
  by (simp_all add: perform_def)

lemma added_maximize:
  "added h (maximize (LimitCheckerWindowFrame h0) h) =
     (case reportedState h (currentWindow h0) of
        Fulfilled state \<Rightarrow>
          [WindowCall (currentWindow h0) GetState,
           WindowCall (currentWindow h0) (if state = ''maximized'' then Restore else Maximize)]
      | Rejected reason \<Rightarrow> [WindowCall (currentWindow h0) GetState])"
  by (simp add: LimitCheckerWindowFrame_def Let_def getCurrentSync_def added_getState_then
      added_perform2 split: promise.split)

lemma maximize_fields:
  "fdc3 (maximize (LimitCheckerWindowFrame h0) h) = fdc3 h"
  "currentWindow (maximize (LimitCheckerWindowFrame h0) h) = currentWindow h"
  "reportedState (maximize (LimitCheckerWindowFrame h0) h) = reportedState h"
  by (simp_all add: LimitCheckerWindowFrame_def Let_def getCurrentSync_def getState_then_def
      perform_fields split: promise.split)

lemma effects_maximize:
  "effects (maximize (LimitCheckerWindowFrame h0) h) =
     effects h @ added h (maximize (LimitCheckerWindowFrame h0) h)"
  by (simp add: LimitCheckerWindowFrame_def Let_def getCurrentSync_def getState_then_def
      perform_fields added_def split: promise.split)

text \<open>
  C3. Each of the three header controls only calls the container's window object, on the
  window that was current when the frame rendered: close adds the one call \<^verbatim>\<open>close()\<close>,
  minimize the one call \<^verbatim>\<open>minimize()\<close>, and maximize the query \<^verbatim>\<open>getState()\<close>
  followed, on the state the container reports, by one of \<^verbatim>\<open>restore()\<close> and
  \<^verbatim>\<open>maximize()\<close> (a query the container rejects is followed by nothing). No handler
  changes anything else of the host, and every call it adds is a call on that window.
\<close>

theorem window_controls_delegate:
  "added h (close (LimitCheckerWindowFrame h0) h) = [WindowCall (getCurrentSync h0) Close]
   \<and> added h (minimize (LimitCheckerWindowFrame h0) h) = [WindowCall (getCurrentSync h0) Minimize]
   \<and> added h (maximize (LimitCheckerWindowFrame h0) h) =
       (case reportedState h (getCurrentSync h0) of
          Fulfilled state \<Rightarrow>
            [WindowCall (getCurrentSync h0) GetState,
             WindowCall (getCurrentSync h0) (if state = ''maximized'' then Restore else Maximize)]
        | Rejected reason \<Rightarrow> [WindowCall (getCurrentSync h0) GetState])
   \<and> (\<forall>handler \<in> {close, minimize, maximize}.
         fdc3 (handler (LimitCheckerWindowFrame h0) h) = fdc3 h
         \<and> currentWindow (handler (LimitCheckerWindowFrame h0) h) = currentWindow h
         \<and> reportedState (handler (LimitCheckerWindowFrame h0) h) = reportedState h
         \<and> effects (handler (LimitCheckerWindowFrame h0) h) =
             effects h @ added h (handler (LimitCheckerWindowFrame h0) h)
         \<and> (\<forall>e \<in> set (added h (handler (LimitCheckerWindowFrame h0) h)).
               \<exists>m. e = WindowCall (getCurrentSync h0) m))"
proof -
  have c: "added h (close (LimitCheckerWindowFrame h0) h) = [WindowCall (getCurrentSync h0) Close]"
    by (simp add: LimitCheckerWindowFrame_def Let_def added_perform)
  have m: "added h (minimize (LimitCheckerWindowFrame h0) h) = [WindowCall (getCurrentSync h0) Minimize]"
    by (simp add: LimitCheckerWindowFrame_def Let_def added_perform)
  have x: "added h (maximize (LimitCheckerWindowFrame h0) h) =
       (case reportedState h (getCurrentSync h0) of
          Fulfilled state \<Rightarrow>
            [WindowCall (getCurrentSync h0) GetState,
             WindowCall (getCurrentSync h0) (if state = ''maximized'' then Restore else Maximize)]
        | Rejected reason \<Rightarrow> [WindowCall (getCurrentSync h0) GetState])"
    by (simp add: added_maximize getCurrentSync_def split: promise.split)
  have fc: "fdc3 (close (LimitCheckerWindowFrame h0) h) = fdc3 h
         \<and> currentWindow (close (LimitCheckerWindowFrame h0) h) = currentWindow h
         \<and> reportedState (close (LimitCheckerWindowFrame h0) h) = reportedState h
         \<and> effects (close (LimitCheckerWindowFrame h0) h) =
             effects h @ added h (close (LimitCheckerWindowFrame h0) h)"
    unfolding c by (simp add: LimitCheckerWindowFrame_def Let_def perform_fields)
  have fm: "fdc3 (minimize (LimitCheckerWindowFrame h0) h) = fdc3 h
         \<and> currentWindow (minimize (LimitCheckerWindowFrame h0) h) = currentWindow h
         \<and> reportedState (minimize (LimitCheckerWindowFrame h0) h) = reportedState h
         \<and> effects (minimize (LimitCheckerWindowFrame h0) h) =
             effects h @ added h (minimize (LimitCheckerWindowFrame h0) h)"
    unfolding m by (simp add: LimitCheckerWindowFrame_def Let_def perform_fields)
  have ex: "\<forall>e \<in> set (added h (maximize (LimitCheckerWindowFrame h0) h)).
               \<exists>m. e = WindowCall (getCurrentSync h0) m"
    unfolding x by (simp split: promise.split)
  show ?thesis
    using c m x fc fm ex maximize_fields [of h0 h] effects_maximize [of h0 h] by simp
qed

theorem window_controls_delegate_witness:
  "added \<lparr>fdc3 = False, currentWindow = ''limit-checker'',
           reportedState = (\<lambda>w. Fulfilled ''maximized''), effects = []\<rparr>
     (close (LimitCheckerWindowFrame
        \<lparr>fdc3 = False, currentWindow = ''limit-checker'',
          reportedState = (\<lambda>w. Fulfilled ''maximized''), effects = []\<rparr>)
        \<lparr>fdc3 = False, currentWindow = ''limit-checker'',
          reportedState = (\<lambda>w. Fulfilled ''maximized''), effects = []\<rparr>)
     = [WindowCall ''limit-checker'' Close]
   \<and> added \<lparr>fdc3 = False, currentWindow = ''limit-checker'',
           reportedState = (\<lambda>w. Fulfilled ''maximized''), effects = []\<rparr>
     (maximize (LimitCheckerWindowFrame
        \<lparr>fdc3 = False, currentWindow = ''limit-checker'',
          reportedState = (\<lambda>w. Fulfilled ''maximized''), effects = []\<rparr>)
        \<lparr>fdc3 = False, currentWindow = ''limit-checker'',
          reportedState = (\<lambda>w. Fulfilled ''maximized''), effects = []\<rparr>)
     = [WindowCall ''limit-checker'' GetState, WindowCall ''limit-checker'' Restore]"
  using window_controls_delegate
    [of "\<lparr>fdc3 = False, currentWindow = ''limit-checker'',
          reportedState = (\<lambda>w. Fulfilled ''maximized''), effects = []\<rparr>"
        "\<lparr>fdc3 = False, currentWindow = ''limit-checker'',
          reportedState = (\<lambda>w. Fulfilled ''maximized''), effects = []\<rparr>"]
  by (simp add: getCurrentSync_def)

text \<open>
  C9. The maximize control is a toggle: on a reported state that is exactly
  \<^verbatim>\<open>"maximized"\<close> the call after the query is \<^verbatim>\<open>restore()\<close>, on every other reported
  state it is \<^verbatim>\<open>maximize()\<close>, and no run of the handler makes both calls.
\<close>

theorem maximize_toggles:
  "(reportedState h (getCurrentSync h0) = Fulfilled state \<longrightarrow>
      added h (maximize (LimitCheckerWindowFrame h0) h) =
        [WindowCall (getCurrentSync h0) GetState,
         WindowCall (getCurrentSync h0) (if state = ''maximized'' then Restore else Maximize)])
   \<and> \<not> (WindowCall w Restore \<in> set (added h (maximize (LimitCheckerWindowFrame h0) h))
        \<and> WindowCall w' Maximize \<in> set (added h (maximize (LimitCheckerWindowFrame h0) h)))"
  by (simp add: added_maximize getCurrentSync_def split: promise.split)

theorem maximize_toggles_witness:
  "added \<lparr>fdc3 = False, currentWindow = ''limit-checker'',
           reportedState = (\<lambda>w. Fulfilled ''normal''), effects = []\<rparr>
     (maximize (LimitCheckerWindowFrame
        \<lparr>fdc3 = False, currentWindow = ''limit-checker'',
          reportedState = (\<lambda>w. Fulfilled ''normal''), effects = []\<rparr>)
        \<lparr>fdc3 = False, currentWindow = ''limit-checker'',
          reportedState = (\<lambda>w. Fulfilled ''normal''), effects = []\<rparr>)
     = [WindowCall ''limit-checker'' GetState, WindowCall ''limit-checker'' Maximize]
   \<and> added \<lparr>fdc3 = False, currentWindow = ''limit-checker'',
           reportedState = (\<lambda>w. Fulfilled ''maximized''), effects = []\<rparr>
     (maximize (LimitCheckerWindowFrame
        \<lparr>fdc3 = False, currentWindow = ''limit-checker'',
          reportedState = (\<lambda>w. Fulfilled ''maximized''), effects = []\<rparr>)
        \<lparr>fdc3 = False, currentWindow = ''limit-checker'',
          reportedState = (\<lambda>w. Fulfilled ''maximized''), effects = []\<rparr>)
     = [WindowCall ''limit-checker'' GetState, WindowCall ''limit-checker'' Restore]"
  using maximize_toggles
    [of "\<lparr>fdc3 = False, currentWindow = ''limit-checker'',
          reportedState = (\<lambda>w. Fulfilled ''normal''), effects = []\<rparr>"
        "\<lparr>fdc3 = False, currentWindow = ''limit-checker'',
          reportedState = (\<lambda>w. Fulfilled ''normal''), effects = []\<rparr>" "''normal''"]
    maximize_toggles
    [of "\<lparr>fdc3 = False, currentWindow = ''limit-checker'',
          reportedState = (\<lambda>w. Fulfilled ''maximized''), effects = []\<rparr>"
        "\<lparr>fdc3 = False, currentWindow = ''limit-checker'',
          reportedState = (\<lambda>w. Fulfilled ''maximized''), effects = []\<rparr>" "''maximized''"]
  by (simp add: getCurrentSync_def)

section \<open>Properties of the configuration\<close>

lemma setConfig_fst:
  "fst (setConfig g0 loadEnv mode) =
     \<lparr>base_url = (if mode = ''development'' then ''/'' else getBaseUrl (merged g0 (loadEnv mode)) False),
      build_sourcemap = True,
      preview_port = localPort g0,
      server_port = localPort g0,
      server_proxy = proxy (merged g0 (loadEnv mode)),
      resolve_alias = [(''@'', ''/src'')],
      plugins = (if process_env (merged g0 (loadEnv mode)) ''STORYBOOK'' = Some ''true'' then []
                 else devPlugins (merged g0 (loadEnv mode)) mode) @ [fontFacePreload]\<rparr>"
  by (simp add: setConfig_def Let_def merged_def)

lemma setConfig_snd: "snd (setConfig g0 loadEnv mode) = merged g0 (loadEnv mode)"
  by (simp add: setConfig_def Let_def)

lemma devPlugins_targets:
  "p \<in> set (devPlugins g mode) \<Longrightarrow>
     (\<forall>d t. p = TargetBuildPlugin d t \<longrightarrow> d = (mode = ''development'') \<and> t = buildTarget g)
     \<and> (\<forall>t. p = IndexSwitchPlugin t \<longrightarrow> t = buildTarget g)
     \<and> (\<forall>f ts. p = ViteStaticCopy f ts \<longrightarrow>
           p = copyPlugin g (mode = ''development'') (buildTarget g) (env_name g))"
  by (auto simp add: devPlugins_def Let_def targetBuildPlugin_def indexSwitchPlugin_def
      apiMockReplacerPlugin_def customPreloadPlugin_def injectWebServiceWorkerPlugin_def
      injectScriptIntoHtml_def copyPlugin_def split: if_splits)

lemma devPlugins_has:
  "targetBuildPlugin (mode = ''development'') (buildTarget g) \<in> set (devPlugins g mode)"
  "indexSwitchPlugin (buildTarget g) \<in> set (devPlugins g mode)"
  "copyPlugin g (mode = ''development'') (buildTarget g) (env_name g) \<in> set (devPlugins g mode)"
  by (simp_all add: devPlugins_def Let_def)

text \<open>
  C4, as amended. The build target is selected by the variable \<^verbatim>\<open>TARGET\<close>: it is the
  variable's value when that is set and not empty, and \<^verbatim>\<open>"web"\<close> otherwise. Each of
  \<^verbatim>\<open>"web"\<close>, \<^verbatim>\<open>"openfin"\<close> and \<^verbatim>\<open>"finsemble"\<close> is selected by setting the
  variable to it, and the target is one of the three exactly when the variable is unset, empty
  or one of the three: the value is not checked, and another text is passed on as it is. The
  target-build, index-switch and copy plugins of the configuration are built from this one
  value: they are among the plugins (unless \<^verbatim>\<open>STORYBOOK\<close> is \<^verbatim>\<open>"true"\<close>), and no
  plugin of these three kinds in the configuration has another target.
\<close>

theorem buildTarget_selected_by_TARGET:
  "buildTarget (snd (setConfig g0 loadEnv mode)) =
     (case process_env (snd (setConfig g0 loadEnv mode)) ''TARGET'' of
        None \<Rightarrow> ''web'' | Some t \<Rightarrow> if t = [] then ''web'' else t)
   \<and> (\<forall>t \<in> {''web'', ''openfin'', ''finsemble''}.
         process_env (snd (setConfig g0 loadEnv mode)) ''TARGET'' = Some t \<longrightarrow>
         buildTarget (snd (setConfig g0 loadEnv mode)) = t)
   \<and> (buildTarget (snd (setConfig g0 loadEnv mode)) \<in> {''web'', ''openfin'', ''finsemble''}
        \<longleftrightarrow> process_env (snd (setConfig g0 loadEnv mode)) ''TARGET''
              \<in> {None, Some [], Some ''web'', Some ''openfin'', Some ''finsemble''})
   \<and> (process_env (snd (setConfig g0 loadEnv mode)) ''STORYBOOK'' \<noteq> Some ''true'' \<longrightarrow>
       {targetBuildPlugin (mode = ''development'') (buildTarget (snd (setConfig g0 loadEnv mode))),
        indexSwitchPlugin (buildTarget (snd (setConfig g0 loadEnv mode))),
        copyPlugin (snd (setConfig g0 loadEnv mode)) (mode = ''development'')
          (buildTarget (snd (setConfig g0 loadEnv mode))) (env_name (snd (setConfig g0 loadEnv mode)))}
         \<subseteq> set (plugins (fst (setConfig g0 loadEnv mode))))
   \<and> (\<forall>p \<in> set (plugins (fst (setConfig g0 loadEnv mode))).
         (\<forall>d t. p = TargetBuildPlugin d t \<longrightarrow> t = buildTarget (snd (setConfig g0 loadEnv mode)))
         \<and> (\<forall>t. p = IndexSwitchPlugin t \<longrightarrow> t = buildTarget (snd (setConfig g0 loadEnv mode)))
         \<and> (\<forall>f ts. p = ViteStaticCopy f ts \<longrightarrow>
               p = copyPlugin (snd (setConfig g0 loadEnv mode)) (mode = ''development'')
                     (buildTarget (snd (setConfig g0 loadEnv mode)))
                     (env_name (snd (setConfig g0 loadEnv mode)))))"
proof -
  define g where "g = snd (setConfig g0 loadEnv mode)"
  have g: "g = merged g0 (loadEnv mode)" by (simp add: g_def setConfig_snd)
  have a: "buildTarget g =
     (case process_env g ''TARGET'' of None \<Rightarrow> ''web'' | Some t \<Rightarrow> if t = [] then ''web'' else t)"
    by (simp add: buildTarget_def or_else_def)
  have b: "\<forall>t \<in> {''web'', ''openfin'', ''finsemble''}.
         process_env g ''TARGET'' = Some t \<longrightarrow> buildTarget g = t"
    by (simp add: buildTarget_def or_else_def)
  have c: "buildTarget g \<in> {''web'', ''openfin'', ''finsemble''}
      \<longleftrightarrow> process_env g ''TARGET''
            \<in> {None, Some [], Some ''web'', Some ''openfin'', Some ''finsemble''}"
    by (auto simp add: buildTarget_def or_else_def split: option.splits if_splits)
  have d: "process_env g ''STORYBOOK'' \<noteq> Some ''true'' \<longrightarrow>
       {targetBuildPlugin (mode = ''development'') (buildTarget g),
        indexSwitchPlugin (buildTarget g),
        copyPlugin g (mode = ''development'') (buildTarget g) (env_name g)}
         \<subseteq> set (plugins (fst (setConfig g0 loadEnv mode)))"
    using devPlugins_has [where g = g and mode = mode] by (simp add: setConfig_fst g [symmetric])
  have e: "\<forall>p \<in> set (plugins (fst (setConfig g0 loadEnv mode))).
         (\<forall>d t. p = TargetBuildPlugin d t \<longrightarrow> t = buildTarget g)
         \<and> (\<forall>t. p = IndexSwitchPlugin t \<longrightarrow> t = buildTarget g)
         \<and> (\<forall>f ts. p = ViteStaticCopy f ts \<longrightarrow>
               p = copyPlugin g (mode = ''development'') (buildTarget g) (env_name g))"
  proof
    fix p assume "p \<in> set (plugins (fst (setConfig g0 loadEnv mode)))"
    then have "p = fontFacePreload \<or> p \<in> set (devPlugins g mode)"
      by (auto simp add: setConfig_fst g [symmetric] split: if_splits)
    then show "(\<forall>d t. p = TargetBuildPlugin d t \<longrightarrow> t = buildTarget g)
         \<and> (\<forall>t. p = IndexSwitchPlugin t \<longrightarrow> t = buildTarget g)
         \<and> (\<forall>f ts. p = ViteStaticCopy f ts \<longrightarrow>
               p = copyPlugin g (mode = ''development'') (buildTarget g) (env_name g))"
      using devPlugins_targets [of p g mode] by (auto simp add: fontFacePreload_def)
  qed
  show ?thesis using a b c d e unfolding g_def by blast
qed

text \<open>
  C4, as stated, fails: with \<^verbatim>\<open>TARGET=staging\<close> the build target is \<^verbatim>\<open>"staging"\<close>,
  which is none of the three values, and the target-build plugin of the configuration is built
  from it.
\<close>

theorem buildTarget_outside_three_counterexample:
  "buildTarget (snd (setConfig \<lparr>localPort = ''1917'', process_env = [''TARGET'' \<mapsto> ''staging'']\<rparr>
      (\<lambda>mode. Map.empty) ''development'')) = ''staging''
   \<and> ''staging'' \<notin> {''web'', ''openfin'', ''finsemble''}
   \<and> targetBuildPlugin True ''staging''
       \<in> set (plugins (fst (setConfig \<lparr>localPort = ''1917'', process_env = [''TARGET'' \<mapsto> ''staging'']\<rparr>
             (\<lambda>mode. Map.empty) ''development'')))"
  by (simp add: setConfig_snd setConfig_fst merged_def buildTarget_def or_else_def devPlugins_def
      Let_def)

theorem buildTarget_selected_by_TARGET_witness:
  "buildTarget (snd (setConfig \<lparr>localPort = ''1917'', process_env = [''TARGET'' \<mapsto> ''openfin'']\<rparr>
      (\<lambda>mode. Map.empty) ''production'')) = ''openfin''
   \<and> targetBuildPlugin False ''openfin''
       \<in> set (plugins (fst (setConfig \<lparr>localPort = ''1917'', process_env = [''TARGET'' \<mapsto> ''openfin'']\<rparr>
             (\<lambda>mode. Map.empty) ''production'')))
   \<and> indexSwitchPlugin ''openfin''
       \<in> set (plugins (fst (setConfig \<lparr>localPort = ''1917'', process_env = [''TARGET'' \<mapsto> ''openfin'']\<rparr>
             (\<lambda>mode. Map.empty) ''production'')))"
  using buildTarget_selected_by_TARGET
    [of "\<lparr>localPort = ''1917'', process_env = [''TARGET'' \<mapsto> ''openfin'']\<rparr>"
        "\<lambda>mode. Map.empty" "''production''"]
  by (simp add: setConfig_snd merged_def buildTarget_def or_else_def)

text \<open>
  C10. With \<^verbatim>\<open>TARGET\<close> unset the build target is \<^verbatim>\<open>"web"\<close>, and with
  \<^verbatim>\<open>ENVIRONMENT\<close> unset the environment name is \<^verbatim>\<open>"local"\<close>. With no variable set at
  all and nothing read from the environment files, the configuration is that of the web target
  in the local environment.
\<close>

theorem defaults_when_unset:
  "(process_env (snd (setConfig g0 loadEnv mode)) ''TARGET'' = None \<longrightarrow>
      buildTarget (snd (setConfig g0 loadEnv mode)) = ''web'')
   \<and> (process_env (snd (setConfig g0 loadEnv mode)) ''ENVIRONMENT'' = None \<longrightarrow>
      env_name (snd (setConfig g0 loadEnv mode)) = ''local'')
   \<and> (process_env g0 = Map.empty \<and> loadEnv mode = Map.empty \<longrightarrow>
      buildTarget (snd (setConfig g0 loadEnv mode)) = ''web''
      \<and> env_name (snd (setConfig g0 loadEnv mode)) = ''local''
      \<and> plugins (fst (setConfig g0 loadEnv mode)) =
          [targetBuildPlugin (mode = ''development'') ''web'', indexSwitchPlugin ''web'', React]
          @ (if mode = ''development'' then []
             else [SplitVendorChunkPlugin, customPreloadPlugin (snd (setConfig g0 loadEnv mode))])
          @ [injectWebServiceWorkerPlugin (snd (setConfig g0 loadEnv mode)) mode,
             copyPlugin (snd (setConfig g0 loadEnv mode)) (mode = ''development'') ''web'' ''local'',
             injectScriptIntoHtml (snd (setConfig g0 loadEnv mode)) (mode = ''development'')
               ''web'' ''local'',
             fontFacePreload])"
proof -
  have a: "process_env (snd (setConfig g0 loadEnv mode)) ''TARGET'' = None \<longrightarrow>
      buildTarget (snd (setConfig g0 loadEnv mode)) = ''web''"
    by (simp add: buildTarget_def or_else_def)
  have b: "process_env (snd (setConfig g0 loadEnv mode)) ''ENVIRONMENT'' = None \<longrightarrow>
      env_name (snd (setConfig g0 loadEnv mode)) = ''local''"
    by (simp add: env_name_def or_else_def)
  have c: "process_env g0 = Map.empty \<and> loadEnv mode = Map.empty \<longrightarrow>
      buildTarget (snd (setConfig g0 loadEnv mode)) = ''web''
      \<and> env_name (snd (setConfig g0 loadEnv mode)) = ''local''
      \<and> plugins (fst (setConfig g0 loadEnv mode)) =
          [targetBuildPlugin (mode = ''development'') ''web'', indexSwitchPlugin ''web'', React]
          @ (if mode = ''development'' then []
             else [SplitVendorChunkPlugin, customPreloadPlugin (snd (setConfig g0 loadEnv mode))])
          @ [injectWebServiceWorkerPlugin (snd (setConfig g0 loadEnv mode)) mode,
             copyPlugin (snd (setConfig g0 loadEnv mode)) (mode = ''development'') ''web'' ''local'',
             injectScriptIntoHtml (snd (setConfig g0 loadEnv mode)) (mode = ''development'')
               ''web'' ''local'',
             fontFacePreload]"
    by (simp add: setConfig_snd setConfig_fst merged_def buildTarget_def env_name_def or_else_def
        truthy_def devPlugins_def Let_def)
  show ?thesis using a b c by blast
qed

theorem defaults_when_unset_witness:
  "buildTarget (snd (setConfig \<lparr>localPort = ''1917'', process_env = Map.empty\<rparr>
      (\<lambda>mode. Map.empty) ''development'')) = ''web''
   \<and> env_name (snd (setConfig \<lparr>localPort = ''1917'', process_env = Map.empty\<rparr>
      (\<lambda>mode. Map.empty) ''development'')) = ''local''
   \<and> buildTarget (snd (setConfig \<lparr>localPort = ''1917'', process_env = [''ENVIRONMENT'' \<mapsto> ''uat'']\<rparr>
      (\<lambda>mode. Map.empty) ''production'')) = ''web''"
  using defaults_when_unset
    [of "\<lparr>localPort = ''1917'', process_env = Map.empty\<rparr>" "\<lambda>mode. Map.empty" "''development''"]
    defaults_when_unset
    [of "\<lparr>localPort = ''1917'', process_env = [''ENVIRONMENT'' \<mapsto> ''uat'']\<rparr>"
        "\<lambda>mode. Map.empty" "''production''"]
  by (simp add: setConfig_snd merged_def)

text \<open>
  C6. When \<^verbatim>\<open>VITE_MOCKS\<close> is set (to a text that is not empty) the server has no proxy.
  Otherwise its proxy has the one entry \<^verbatim>\<open>"/ws"\<close>, with \<^verbatim>\<open>ws\<close> and
  \<^verbatim>\<open>changeOrigin\<close> true, whose target is \<^verbatim>\<open>VITE_HYDRA_URL\<close> when that is set (and not
  empty) and the demo gateway otherwise.
\<close>

theorem dev_server_proxy:
  "(truthy (process_env (snd (setConfig g0 loadEnv mode)) ''VITE_MOCKS'') \<longrightarrow>
      server_proxy (fst (setConfig g0 loadEnv mode)) = None)
   \<and> (\<not> truthy (process_env (snd (setConfig g0 loadEnv mode)) ''VITE_MOCKS'') \<longrightarrow>
      server_proxy (fst (setConfig g0 loadEnv mode)) =
        Some [(''/ws'',
          \<lparr>target =
             (case process_env (snd (setConfig g0 loadEnv mode)) ''VITE_HYDRA_URL'' of
                None \<Rightarrow> ''wss://trading-web-gateway-rt-dev.demo.hydra.weareadaptive.com''
              | Some url \<Rightarrow>
                  if url = [] then ''wss://trading-web-gateway-rt-dev.demo.hydra.weareadaptive.com''
                  else url),
           changeOrigin = True, ws = True\<rparr>)])"
  by (simp add: setConfig_snd setConfig_fst proxy_def or_else_def)

theorem dev_server_proxy_witness:
  "server_proxy (fst (setConfig
      \<lparr>localPort = ''1917'', process_env = [''VITE_HYDRA_URL'' \<mapsto> ''ws://localhost:8929'']\<rparr>
      (\<lambda>mode. Map.empty) ''development''))
     = Some [(''/ws'', \<lparr>target = ''ws://localhost:8929'', changeOrigin = True, ws = True\<rparr>)]
   \<and> server_proxy (fst (setConfig \<lparr>localPort = ''1917'', process_env = Map.empty\<rparr>
      (\<lambda>mode. Map.empty) ''development''))
     = Some [(''/ws'',
          \<lparr>target = ''wss://trading-web-gateway-rt-dev.demo.hydra.weareadaptive.com'',
           changeOrigin = True, ws = True\<rparr>)]
   \<and> server_proxy (fst (setConfig
      \<lparr>localPort = ''1917'', process_env = [''VITE_MOCKS'' \<mapsto> ''true'']\<rparr>
      (\<lambda>mode. Map.empty) ''development'')) = None"
  using dev_server_proxy
    [of "\<lparr>localPort = ''1917'', process_env = [''VITE_HYDRA_URL'' \<mapsto> ''ws://localhost:8929'']\<rparr>"
        "\<lambda>mode. Map.empty" "''development''"]
    dev_server_proxy
    [of "\<lparr>localPort = ''1917'', process_env = Map.empty\<rparr>" "\<lambda>mode. Map.empty" "''development''"]
    dev_server_proxy
    [of "\<lparr>localPort = ''1917'', process_env = [''VITE_MOCKS'' \<mapsto> ''true'']\<rparr>"
        "\<lambda>mode. Map.empty" "''development''"]
  by (simp add: setConfig_snd merged_def truthy_def)

section \<open>Properties of the target-build plugin in dev mode\<close>

lemma split_at_none: "c \<notin> set xs \<Longrightarrow> split_at [c] piece xs = [piece @ xs]"
  by (induction xs arbitrary: piece) auto

lemma split_at_first:
  "c \<notin> set xs \<Longrightarrow> split_at [c] piece (xs @ c # ys) = (piece @ xs) # split_at [c] [] ys"
  by (induction xs arbitrary: piece) auto

lemma js_split_one_dot:
  "CHR ''.'' \<notin> set stem \<Longrightarrow> CHR ''.'' \<notin> set e \<Longrightarrow>
     js_split (stem @ CHR ''.'' # e) ''.'' = [stem, e]"
  by (simp add: js_split_def split_at_first split_at_none)

text \<open>
  On a source with exactly one dot, followed by \<^verbatim>\<open>ts\<close> or \<^verbatim>\<open>tsx\<close>: the directory is
  listed (a directory that cannot be read makes the hook throw), and the import is handed on as
  the per-target sibling exactly when the listing has it. A source whose second piece between
  dots is neither \<^verbatim>\<open>ts\<close> nor \<^verbatim>\<open>tsx\<close> is left alone.
\<close>

lemma targetBuildPlugin_dev_one_dot:
  assumes "CHR ''.'' \<notin> set stem" "e = ''ts'' \<or> e = ''tsx''"
  shows "targetBuildPlugin_resolveId nd True bt (stem @ ''.'' @ e) importer =
     (case readdirSync nd (''.'' @ dir (path_parse nd (stem @ ''.'' @ e))) of
        Inl err \<Rightarrow> Inl err
      | Inr files \<Rightarrow>
          if name (path_parse nd (stem @ ''.'' @ e)) @ ''.'' @ bt @ ''.'' @ e \<in> set files
          then Inr (Resolve (dir (path_parse nd (stem @ ''.'' @ e)) @ ''/''
                  @ name (path_parse nd (stem @ ''.'' @ e)) @ ''.'' @ bt @ ''.'' @ e) importer)
          else Inr Null)"
proof -
  have "CHR ''.'' \<notin> set e" using assms(2) by auto
  then have "at_index (js_split (stem @ ''.'' @ e) ''.'') 1 = Some e"
    using assms(1) by (simp add: js_split_one_dot at_index_def)
  then show ?thesis
    using assms(2)
    by (auto simp add: targetBuildPlugin_resolveId_def Let_def
        split: sum.split)
qed

lemma targetBuildPlugin_dev_other:
  "at_index (js_split source ''.'') 1 \<notin> {Some ''ts'', Some ''tsx''} \<Longrightarrow>
     targetBuildPlugin_resolveId nd True bt source importer = Inr Null"
  by (auto simp add: targetBuildPlugin_resolveId_def split: option.split)

text \<open>
  C5, at an input where the code departs from it. The source \<^verbatim>\<open>/src/utils/date.format.ts\<close>
  has the extension \<^verbatim>\<open>ts\<close>, and its directory holds \<^verbatim>\<open>date.format.openfin.ts\<close>; yet in
  dev mode the plugin for \<^verbatim>\<open>openfin\<close> returns null, because what it takes for the extension
  is the second of the pieces between dots, \<^verbatim>\<open>format\<close>.
\<close>

theorem targetBuildPlugin_dev_dotted_name:
  "resolveId
     \<lparr>path_parse = posix_parse, path_join = posix_join,
      readdirSync = (\<lambda>p. if p = ''./src/utils''
                          then Inr [''date.format.ts'', ''date.format.openfin.ts'']
                          else Inl (ENOENT p)),
      statSync = (\<lambda>p. Inl (ENOENT p))\<rparr>
     (targetBuildPlugin True ''openfin'') ''/src/utils/date.format.ts'' None = Inr Null
   \<and> at_index (js_split ''/src/utils/date.format.ts'' ''.'') 1 = Some ''format''
   \<and> dir (posix_parse ''/src/utils/date.format.ts'') = ''/src/utils''
   \<and> name (posix_parse ''/src/utils/date.format.ts'') = ''date.format''
   \<and> ext (posix_parse ''/src/utils/date.format.ts'') = ''.ts''"
  by (simp add: targetBuildPlugin_def targetBuildPlugin_resolveId_def js_split_def at_index_def
      posix_parse_def is_slash_def is_dot_def Let_def)

theorem targetBuildPlugin_dev_dotted_name_witness:
  "resolveId
     \<lparr>path_parse = posix_parse, path_join = posix_join,
      readdirSync = (\<lambda>p. if p = ''./src/utils''
                          then Inr [''date.format.ts'', ''date.format.openfin.ts'']
                          else Inl (ENOENT p)),
      statSync = (\<lambda>p. Inl (ENOENT p))\<rparr>
     (targetBuildPlugin True ''openfin'') ''/src/utils/date.format.ts'' None = Inr Null
   \<and> resolveId
     \<lparr>path_parse = posix_parse, path_join = posix_join,
      readdirSync = (\<lambda>p. if p = ''./src/utils''
                          then Inr [''date.ts'', ''date.openfin.ts'']
                          else Inl (ENOENT p)),
      statSync = (\<lambda>p. Inl (ENOENT p))\<rparr>
     (targetBuildPlugin True ''openfin'') ''/src/utils/date.ts'' None
     = Inr (Resolve ''/src/utils/date.openfin.ts'' None)"
  using targetBuildPlugin_dev_dotted_name
  by (simp add: targetBuildPlugin_def targetBuildPlugin_resolveId_def js_split_def at_index_def
      posix_parse_def is_slash_def is_dot_def Let_def)

section \<open>Properties of replacement\<close>

















section \<open>Properties of the copy plugin\<close>


















section \<open>Properties of the credit end-to-end test\<close>






end
